theory Spec2Isabelle
  imports Main "HOL-Library.Word"
begin

section \<open>Values crossing the boundary\<close>

text \<open>
  The module \<^verbatim>\<open>src/native/_mutable.js\<close> marshals mutable-data records between
  JavaScript objects and the structs of a native library. The embedding works on the
  values the JavaScript code sees: a byte buffer is the list of its bytes, a struct is the
  record of the values of its fields, a thrown error is the left summand of a sum type.
\<close>

type_synonym byte = "8 word"
type_synonym bytes = "byte list"

text \<open>
  A JavaScript value as far as \<^verbatim>\<open>Number.isInteger\<close> can tell values apart: a number with
  an integral value, any other number (a fraction, NaN, an infinity), a string, or
  \<^verbatim>\<open>undefined\<close>.
\<close>

datatype js_value = JInteger int | JNonInteger | JString string | JUndefined

fun Number_isInteger :: "js_value \<Rightarrow> bool" where
  "Number_isInteger (JInteger i) = True"
| "Number_isInteger v = False"

text \<open>
  The errors of \<^verbatim>\<open>error_const\<close> that the module raises through \<^verbatim>\<open>makeError\<close> (the size
  named by the message is the constructor's argument), and the errors raised by the runtime
  below the module: an \<^verbatim>\<open>Error\<close> of the \<^verbatim>\<open>ref\<close> libraries, a \<^verbatim>\<open>TypeError\<close> of the language
  (a property read from \<^verbatim>\<open>null\<close>), the refusal of \<^verbatim>\<open>ref.reinterpret\<close> to start from the
  null pointer, and a read of native memory that is not mapped.
\<close>

datatype error =
    TYPE_TAG_NAN
  | XOR_NAME nat
  | INVALID_SEC_KEY nat
  | NONCE nat
  | LibraryError
  | TypeError
  | NullPointer
  | Segfault

fun is_validation_error :: "error \<Rightarrow> bool" where
  "is_validation_error TYPE_TAG_NAN = True"
| "is_validation_error (XOR_NAME n) = True"
| "is_validation_error (INVALID_SEC_KEY n) = True"
| "is_validation_error (NONCE n) = True"
| "is_validation_error e = False"

text \<open>
  The fixed sizes declared by the type registry \<^verbatim>\<open>t\<close> of \<^verbatim>\<open>_base.js\<close>. Its
  declarations are not among the sources, so the sizes are a parameter of every function
  that reads \<^verbatim>\<open>t.XOR_NAME.size\<close>, \<^verbatim>\<open>t.SYM_KEYBYTES.size\<close> or \<^verbatim>\<open>t.SYM_NONCEBYTES.size\<close>.
\<close>

record base_types =
  XOR_NAME_size :: nat
  SYM_KEYBYTES_size :: nat
  SYM_NONCEBYTES_size :: nat

text \<open>\<^verbatim>\<open>Buffer.alloc(n)\<close>: a fresh buffer of \<open>n\<close> zero bytes.\<close>

definition Buffer_alloc :: "nat \<Rightarrow> bytes" where
  "Buffer_alloc n = replicate n 0"

text \<open>
  A fixed-length array type of \<^verbatim>\<open>ref-array\<close> applied to a buffer, as in
  \<^verbatim>\<open>t.XOR_NAME(b)\<close>: a buffer shorter than the declared size is refused with an
  \<^verbatim>\<open>Error\<close>, a longer one is cut to the declared size.
\<close>

definition ArrayType :: "nat \<Rightarrow> bytes \<Rightarrow> error + bytes" where
  "ArrayType n b = (if length b < n then Inl LibraryError else Inr (take n b))"

section \<open>MutableDataInfo\<close>

text \<open>The struct \<^verbatim>\<open>MDataInfo\<close>, field by field.\<close>

record MDataInfo =
  name :: bytes
  type_tag :: js_value
  has_enc_info :: bool
  enc_key :: bytes
  enc_nonce :: bytes
  has_new_enc_info :: bool
  new_enc_key :: bytes
  new_enc_nonce :: bytes

text \<open>
  The JavaScript object that \<^verbatim>\<open>makeMDataInfo\<close> reads and \<^verbatim>\<open>makeMDataInfoObj\<close> builds. Its
  tag is the property \<^verbatim>\<open>typeTag\<close>; the other properties carry the names of the struct's
  fields.
\<close>

record MDataInfoObj =
  name :: bytes
  typeTag :: js_value
  has_enc_info :: bool
  enc_key :: bytes
  enc_nonce :: bytes
  has_new_enc_info :: bool
  new_enc_key :: bytes
  new_enc_nonce :: bytes

text \<open>
  \<^verbatim>\<open>makeMDataInfo\<close>: the zero-filled key and nonce are built first and replaced by the
  object's own only under the object's flag. The function has no \<^verbatim>\<open>throw\<close> of its own.
\<close>

definition makeMDataInfo :: "base_types \<Rightarrow> MDataInfoObj \<Rightarrow> error + MDataInfo" where
  "makeMDataInfo t mDataInfoObj =
    (case ArrayType (SYM_KEYBYTES_size t) (Buffer_alloc (SYM_KEYBYTES_size t)) of
       Inl e \<Rightarrow> Inl e
     | Inr zero_key \<Rightarrow>
    (case ArrayType (SYM_NONCEBYTES_size t) (Buffer_alloc (SYM_NONCEBYTES_size t)) of
       Inl e \<Rightarrow> Inl e
     | Inr zero_nonce \<Rightarrow>
    (let enc_key' = (if MDataInfoObj.has_enc_info mDataInfoObj
                    then MDataInfoObj.enc_key mDataInfoObj else zero_key);
         enc_nonce' = (if MDataInfoObj.has_enc_info mDataInfoObj
                      then MDataInfoObj.enc_nonce mDataInfoObj else zero_nonce)
     in
    (case ArrayType (SYM_KEYBYTES_size t) (Buffer_alloc (SYM_KEYBYTES_size t)) of
       Inl e \<Rightarrow> Inl e
     | Inr zero_new_key \<Rightarrow>
    (case ArrayType (SYM_NONCEBYTES_size t) (Buffer_alloc (SYM_NONCEBYTES_size t)) of
       Inl e \<Rightarrow> Inl e
     | Inr zero_new_nonce \<Rightarrow>
    (let new_enc_key' = (if MDataInfoObj.has_new_enc_info mDataInfoObj
                        then MDataInfoObj.new_enc_key mDataInfoObj else zero_new_key);
         new_enc_nonce' = (if MDataInfoObj.has_new_enc_info mDataInfoObj
                          then MDataInfoObj.new_enc_nonce mDataInfoObj else zero_new_nonce)
     in Inr \<lparr> MDataInfo.name = MDataInfoObj.name mDataInfoObj,
              type_tag = typeTag mDataInfoObj,
              MDataInfo.has_enc_info = MDataInfoObj.has_enc_info mDataInfoObj,
              MDataInfo.enc_key = enc_key',
              MDataInfo.enc_nonce = enc_nonce',
              MDataInfo.has_new_enc_info = MDataInfoObj.has_new_enc_info mDataInfoObj,
              MDataInfo.new_enc_key = new_enc_key',
              MDataInfo.new_enc_nonce = new_enc_nonce' \<rparr>))))))"

text \<open>
  \<^verbatim>\<open>makeMDataInfoObj\<close>. Any error of the conversion of the name is caught and replaced by
  the \<^verbatim>\<open>XOR_NAME\<close> error; the conversions of the keys and nonces are not guarded. A field
  of a struct is an object, and an object is truthy whatever its bytes, so each conditional
  \<^verbatim>\<open>mDataInfo.enc_key ? new Buffer(..) : null\<close> takes its first branch. The new key is
  built from the field \<^verbatim>\<open>enc_key\<close> and the new nonce from the field \<^verbatim>\<open>enc_nonce\<close>, as
  lines 234 and 235 of the source have it.
\<close>

definition makeMDataInfoObj :: "base_types \<Rightarrow> MDataInfo \<Rightarrow> error + MDataInfoObj" where
  "makeMDataInfoObj t mDataInfo =
    (case ArrayType (XOR_NAME_size t) (MDataInfo.name mDataInfo) of
       Inl e \<Rightarrow> Inl (XOR_NAME (XOR_NAME_size t))
     | Inr name' \<Rightarrow>
    (let typeTag' = type_tag mDataInfo in
     if \<not> Number_isInteger typeTag' then Inl TYPE_TAG_NAN
     else
    (let has_enc_info' = MDataInfo.has_enc_info mDataInfo in
    (case ArrayType (SYM_KEYBYTES_size t) (MDataInfo.enc_key mDataInfo) of
       Inl e \<Rightarrow> Inl e
     | Inr enc_key' \<Rightarrow>
    (case ArrayType (SYM_NONCEBYTES_size t) (MDataInfo.enc_nonce mDataInfo) of
       Inl e \<Rightarrow> Inl e
     | Inr enc_nonce' \<Rightarrow>
    (let has_new_enc_info' = MDataInfo.has_new_enc_info mDataInfo in
    (case ArrayType (SYM_KEYBYTES_size t) (MDataInfo.enc_key mDataInfo) of
       Inl e \<Rightarrow> Inl e
     | Inr new_enc_key' \<Rightarrow>
    (case ArrayType (SYM_NONCEBYTES_size t) (MDataInfo.enc_nonce mDataInfo) of
       Inl e \<Rightarrow> Inl e
     | Inr new_enc_nonce' \<Rightarrow>
       Inr \<lparr> MDataInfoObj.name = name',
             typeTag = typeTag',
             MDataInfoObj.has_enc_info = has_enc_info',
             MDataInfoObj.enc_key = enc_key',
             MDataInfoObj.enc_nonce = enc_nonce',
             MDataInfoObj.has_new_enc_info = has_new_enc_info',
             MDataInfoObj.new_enc_key = new_enc_key',
             MDataInfoObj.new_enc_nonce = new_enc_nonce' \<rparr>))))))))"

text \<open>
  \<^verbatim>\<open>readMDataInfoPtr\<close>: the first output of the native call is a pointer to the struct, or
  null (here \<open>None\<close>), for which the result is \<^verbatim>\<open>null\<close>.
\<close>

definition readMDataInfoPtr :: "base_types \<Rightarrow> MDataInfo option \<Rightarrow> error + MDataInfoObj option" where
  "readMDataInfoPtr t mDataInfoPtr0 =
    (case mDataInfoPtr0 of
       None \<Rightarrow> Inr None
     | Some mDataInfo \<Rightarrow>
         (case makeMDataInfoObj t mDataInfo of Inl e \<Rightarrow> Inl e | Inr obj \<Rightarrow> Inr (Some obj)))"

section \<open>Permission sets\<close>

text \<open>
  The five capabilities. The struct \<^verbatim>\<open>t.PermissionSet\<close> and the object literal built by
  \<^verbatim>\<open>readPermsSet\<close> have the same five boolean fields, so one record stands for both.
\<close>

record PermissionSet =
  Read :: bool
  Insert :: bool
  Update :: bool
  Delete :: bool
  ManagePermissions :: bool

definition readPermsSet :: "PermissionSet \<Rightarrow> PermissionSet" where
  "readPermsSet permsSet =
     \<lparr> Read = Read permsSet,
       Insert = Insert permsSet,
       Update = Update permsSet,
       Delete = Delete permsSet,
       ManagePermissions = ManagePermissions permsSet \<rparr>"

text \<open>
  What a call evaluates to: the value of the \<^verbatim>\<open>return\<close> statement it reached, or
  \<^verbatim>\<open>undefined\<close> when the body ended without one.
\<close>

datatype 'a js_result = Undefined | Returned 'a

text \<open>
  \<^verbatim>\<open>readPermissionSetPtr\<close>: the first output is a pointer to a permission-set struct
  (\<open>None\<close> for a missing pointer, whose \<^verbatim>\<open>deref\<close> is a \<^verbatim>\<open>TypeError\<close>). The body binds the
  decoded set to a constant and ends.
\<close>

definition readPermissionSetPtr :: "PermissionSet option \<Rightarrow> error + PermissionSet js_result" where
  "readPermissionSetPtr permSetPtr0 =
     (case permSetPtr0 of
        None \<Rightarrow> Inl TypeError
      | Some s \<Rightarrow> (let permSet = readPermsSet s in Inr Undefined))"

section \<open>Argument transforms\<close>

text \<open>
  The byte-like values the API accepts for names, keys and values: a \<^verbatim>\<open>Buffer\<close>, an array
  instance of \<^verbatim>\<open>ref-array\<close> (an object whose property \<^verbatim>\<open>buffer\<close> is its backing
  \<^verbatim>\<open>Buffer\<close>), a string (represented by its UTF-8 encoding, one \<open>char\<close> per byte, which is
  what \<^verbatim>\<open>new Buffer(str)\<close> stores), and an array of numbers (of which \<^verbatim>\<open>new Buffer(arr)\<close>
  keeps the low eight bits each).
\<close>

datatype js_data =
    DBuffer bytes
  | DRefArray bytes
  | DString string
  | DArray "nat list"

fun Buffer_isBuffer :: "js_data \<Rightarrow> bool" where
  "Buffer_isBuffer (DBuffer b) = True"
| "Buffer_isBuffer d = False"

text \<open>The bytes a value holds, as a \<^verbatim>\<open>Buffer\<close> built from it or laid over it has them.\<close>

fun bytes_of :: "js_data \<Rightarrow> bytes" where
  "bytes_of (DBuffer b) = b"
| "bytes_of (DRefArray b) = b"
| "bytes_of (DString s) = map (\<lambda>c. of_nat (of_char c)) s"
| "bytes_of (DArray xs) = map of_nat xs"

text \<open>\<^verbatim>\<open>new Buffer(v)\<close>: a fresh buffer with the bytes of the value.\<close>

definition new_Buffer :: "js_data \<Rightarrow> bytes" where
  "new_Buffer v = bytes_of v"

text \<open>
  \<^verbatim>\<open>translatePrivMDInput\<close>. A value that is already a \<^verbatim>\<open>Buffer\<close> is checked and passed as
  it is; any other value is copied into a \<^verbatim>\<open>Buffer\<close>, checked, wrapped in the fixed-size
  array type and passed as the pointer to those bytes. The result is the list
  \<^verbatim>\<open>[name, tag, sk, n]\<close>, here a tuple.
\<close>

definition translatePrivMDInput ::
  "base_types \<Rightarrow> js_data \<Rightarrow> js_value \<Rightarrow> js_data \<Rightarrow> js_data
     \<Rightarrow> error + (bytes \<times> js_value \<times> bytes \<times> bytes)" where
  "translatePrivMDInput t xorname tag secKey nonce =
    (if \<not> Number_isInteger tag then Inl TYPE_TAG_NAN
     else
    (case
       (if \<not> Buffer_isBuffer xorname then
          (let b = new_Buffer xorname in
           if length b \<noteq> XOR_NAME_size t then Inl (XOR_NAME (XOR_NAME_size t))
           else ArrayType (XOR_NAME_size t) b)
        else
          (let name' = bytes_of xorname in
           if length name' \<noteq> XOR_NAME_size t then Inl (XOR_NAME (XOR_NAME_size t))
           else Inr name'))
     of Inl e \<Rightarrow> Inl e
      | Inr name' \<Rightarrow>
    (case
       (if \<not> Buffer_isBuffer secKey then
          (let b = new_Buffer secKey in
           if length b \<noteq> SYM_KEYBYTES_size t then Inl (INVALID_SEC_KEY (SYM_KEYBYTES_size t))
           else ArrayType (SYM_KEYBYTES_size t) b)
        else
          (let sk = bytes_of secKey in
           if length sk \<noteq> SYM_KEYBYTES_size t then Inl (INVALID_SEC_KEY (SYM_KEYBYTES_size t))
           else Inr sk))
     of Inl e \<Rightarrow> Inl e
      | Inr sk \<Rightarrow>
    (case
       (if \<not> Buffer_isBuffer nonce then
          (let b = new_Buffer nonce in
           if length b \<noteq> SYM_NONCEBYTES_size t then Inl (NONCE (SYM_NONCEBYTES_size t))
           else ArrayType (SYM_NONCEBYTES_size t) b)
        else
          (let n = bytes_of nonce in
           if length n \<noteq> SYM_NONCEBYTES_size t then Inl (NONCE (SYM_NONCEBYTES_size t))
           else Inr n))
     of Inl e \<Rightarrow> Inl e
      | Inr n \<Rightarrow> Inr (name', tag, sk, n)))))"

text \<open>
  An entry of a native argument list: a value passed on as it came (the application
  pointer, a handle, a version; the transforms never look at it, hence the type variable),
  a byte buffer, or a length.
\<close>

datatype 'p native_arg = Passed 'p | Buf bytes | Len nat

text \<open>
  The expression \<^verbatim>\<open>Buffer.isBuffer(item) ? item : (item.buffer || new Buffer(item))\<close>.
  Only an array instance has a property \<^verbatim>\<open>buffer\<close>.
\<close>

fun item_buffer :: "js_data \<Rightarrow> bytes" where
  "item_buffer (DBuffer b) = b"
| "item_buffer (DRefArray b) = b"
| "item_buffer item = new_Buffer item"

text \<open>The body of the \<^verbatim>\<open>forEach\<close> of both \<^verbatim>\<open>strToBuffer\<close> functions, folded over the items.\<close>

fun push_items :: "'p native_arg list \<Rightarrow> js_data list \<Rightarrow> 'p native_arg list" where
  "push_items args [] = args"
| "push_items args (item # items) =
     (let buf = item_buffer item
      in push_items (args @ [Buf buf] @ [Len (length buf)]) items)"

definition strToBuffer :: "'p \<Rightarrow> 'p \<Rightarrow> js_data list \<Rightarrow> 'p native_arg list" where
  "strToBuffer appPtr mdata varArgs = push_items [Passed appPtr, Passed mdata] varArgs"

text \<open>
  \<^verbatim>\<open>strToBufferButLastEntry\<close>: the variadic arguments are the items followed by
  \<open>lastArg\<close>, which is kept as it is.
\<close>

definition strToBufferButLastEntry :: "'p \<Rightarrow> 'p \<Rightarrow> js_data list \<Rightarrow> 'p \<Rightarrow> 'p native_arg list" where
  "strToBufferButLastEntry appPtr mdata items lastArg =
     push_items [Passed appPtr, Passed mdata] items @ [Passed lastArg]"

text \<open>
  \<^verbatim>\<open>bufferLastEntry\<close>: the variadic arguments are \<open>leading\<close> followed by the value that
  becomes the buffer.
\<close>

definition bufferLastEntry :: "'p list \<Rightarrow> js_data \<Rightarrow> 'p native_arg list" where
  "bufferLastEntry leading lastEntry =
     (let str = new_Buffer lastEntry
      in map Passed leading @ [Buf str, Len (length str)])"

section \<open>Native memory and the output transforms\<close>

text \<open>
  The memory of the native library, seen through the struct types of the module: the
  bytes at each address, and for each struct type the struct stored at an address. An
  address that is not mapped cannot be read. Address \<open>0\<close> is the null pointer.
\<close>

type_synonym addr = nat

record MDataKey =
  val_ptr :: addr
  val_len :: nat

record MDataValue =
  content_ptr :: addr
  content_len :: nat
  entry_version :: nat

record MDataEntry =
  key :: MDataKey
  val :: MDataValue

record UserPermissionSet =
  user_h :: nat
  perm_set :: PermissionSet

record memory =
  bytes_at :: "addr \<rightharpoonup> byte"
  keys_at :: "addr \<rightharpoonup> MDataKey"
  values_at :: "addr \<rightharpoonup> MDataValue"
  entries_at :: "addr \<rightharpoonup> MDataEntry"
  user_perms_at :: "addr \<rightharpoonup> UserPermissionSet"

text \<open>
  The sizes \<^verbatim>\<open>MDataKey.size\<close>, \<^verbatim>\<open>MDataValue.size\<close>, \<^verbatim>\<open>MDataEntry.size\<close> and
  \<^verbatim>\<open>UserPermissionSet.size\<close>, which \<^verbatim>\<open>ref-struct\<close> computes from field types declared in
  \<^verbatim>\<open>_base.js\<close>: a parameter.
\<close>

record struct_sizes =
  MDataKey_size :: nat
  MDataValue_size :: nat
  MDataEntry_size :: nat
  UserPermissionSet_size :: nat

text \<open>
  A \<^verbatim>\<open>Buffer\<close> on the decoding side: memory of the JavaScript heap holding its own bytes,
  or a window of \<open>n\<close> bytes of native memory starting at an address, which is what
  \<^verbatim>\<open>ref.reinterpret\<close> returns without reading anything.
\<close>

datatype js_buffer = Owned bytes | View addr nat

definition ref_reinterpret :: "addr \<Rightarrow> nat \<Rightarrow> error + js_buffer" where
  "ref_reinterpret ptr n = (if ptr = 0 then Inl NullPointer else Inr (View ptr n))"

definition read_bytes :: "memory \<Rightarrow> addr \<Rightarrow> nat \<Rightarrow> error + bytes" where
  "read_bytes m a n =
     (case those (map (bytes_at m) [a ..< a + n]) of
        None \<Rightarrow> Inl Segfault
      | Some bs \<Rightarrow> Inr bs)"

text \<open>\<^verbatim>\<open>new Buffer(buffer)\<close>: a copy, which reads every byte of a window.\<close>

fun copy_Buffer :: "memory \<Rightarrow> js_buffer \<Rightarrow> error + js_buffer" where
  "copy_Buffer m (Owned bs) = Inr (Owned bs)"
| "copy_Buffer m (View a n) =
     (case read_bytes m a n of Inl e \<Rightarrow> Inl e | Inr bs \<Rightarrow> Inr (Owned bs))"

text \<open>
  \<^verbatim>\<open>arr[i]\<close> for an array type laid over a window: the struct at offset \<open>i\<close> times the
  struct size, or \<^verbatim>\<open>undefined\<close> (and then a \<^verbatim>\<open>TypeError\<close> at the first field read) past the
  end of the window.
\<close>

definition array_index :: "(addr \<rightharpoonup> 'a) \<Rightarrow> nat \<Rightarrow> js_buffer \<Rightarrow> nat \<Rightarrow> error + 'a" where
  "array_index heap sz arr i =
     (case arr of
        View base n \<Rightarrow>
          (if Suc i * sz \<le> n
           then (case heap (base + i * sz) of None \<Rightarrow> Inl Segfault | Some s \<Rightarrow> Inr s)
           else Inl TypeError)
      | Owned bs \<Rightarrow> Inl LibraryError)"

text \<open>
  The loop \<^verbatim>\<open>for (let i = 0; i < len; i++) { ... list.push(..) }\<close> shared by the four
  array transforms: \<open>body i\<close> is the object pushed at step \<open>i\<close>, or the error thrown there.
\<close>

function for_push :: "(nat \<Rightarrow> error + 'a) \<Rightarrow> nat \<Rightarrow> nat \<Rightarrow> 'a list \<Rightarrow> error + 'a list" where
  "for_push body len i acc =
     (if i < len
      then (case body i of
              Inl e \<Rightarrow> Inl e
            | Inr x \<Rightarrow> for_push body len (Suc i) (acc @ [x]))
      else Inr acc)"
  by pat_completeness auto
termination
  by (relation "measure (\<lambda>(body, len, i, acc). len - i)") auto

declare for_push.simps [simp del]

text \<open>The objects the transforms build.\<close>

record userPermObject =
  signKey :: nat
  permSet :: PermissionSet

record valueObject =
  buf :: js_buffer
  version :: nat

record entryObject =
  key :: js_buffer
  val :: valueObject

text \<open>
  Each transform is written in two parts: the object built from the record \<^verbatim>\<open>arr[i]\<close>
  (the statements of the loop body after the first), and the transform itself.
\<close>



text \<open>
  The output transform of \<^verbatim>\<open>mdata_list_entries\<close>. The key is the window that
  \<^verbatim>\<open>ref.reinterpret\<close> returns; the value is a fresh empty buffer when the content length is
  zero and a copy of the window otherwise.
\<close>

definition entry_object :: "memory \<Rightarrow> MDataEntry \<Rightarrow> error + entryObject" where
  "entry_object m currEntry =
     (case ref_reinterpret (val_ptr (MDataEntry.key currEntry)) (val_len (MDataEntry.key currEntry)) of
        Inl e \<Rightarrow> Inl e
      | Inr keyStr \<Rightarrow>
     (case
        (if content_len (MDataEntry.val currEntry) = 0
         then Inr (Owned [])
         else (case ref_reinterpret (content_ptr (MDataEntry.val currEntry))
                                    (content_len (MDataEntry.val currEntry)) of
                 Inl e \<Rightarrow> Inl e
               | Inr window \<Rightarrow> copy_Buffer m window))
      of Inl e \<Rightarrow> Inl e
       | Inr valueStr \<Rightarrow>
           Inr \<lparr> entryObject.key = keyStr,
                 entryObject.val = \<lparr> buf = valueStr,
                                     version = entry_version (MDataEntry.val currEntry) \<rparr> \<rparr>))"

definition mdata_list_entries_out ::
  "struct_sizes \<Rightarrow> memory \<Rightarrow> addr \<times> nat \<Rightarrow> error + entryObject list" where
  "mdata_list_entries_out sizes m args =
     (let ptr = fst args; len = snd args in
      if len > 0 then
        (case ref_reinterpret ptr (MDataEntry_size sizes * len) of
           Inl e \<Rightarrow> Inl e
         | Inr arrPtr \<Rightarrow>
             for_push
               (\<lambda>i. case array_index (entries_at m) (MDataEntry_size sizes) arrPtr i of
                       Inl e \<Rightarrow> Inl e
                     | Inr currEntry \<Rightarrow> entry_object m currEntry)
               len 0 [])
      else Inr [])"

text \<open>The output transform of \<^verbatim>\<open>mdata_list_keys\<close>: each key is a window.\<close>

definition key_object :: "MDataKey \<Rightarrow> error + js_buffer" where
  "key_object currKey = ref_reinterpret (val_ptr currKey) (val_len currKey)"

definition mdata_list_keys_out ::
  "struct_sizes \<Rightarrow> memory \<Rightarrow> addr \<times> nat \<Rightarrow> error + js_buffer list" where
  "mdata_list_keys_out sizes m args =
     (let ptr = fst args; len = snd args in
      if len > 0 then
        (case ref_reinterpret ptr (MDataKey_size sizes * len) of
           Inl e \<Rightarrow> Inl e
         | Inr arrPtr \<Rightarrow>
             for_push
               (\<lambda>i. case array_index (keys_at m) (MDataKey_size sizes) arrPtr i of
                       Inl e \<Rightarrow> Inl e
                     | Inr currKey \<Rightarrow> key_object currKey)
               len 0 [])
      else Inr [])"

text \<open>The output transform of \<^verbatim>\<open>mdata_list_values\<close>: each content is a window.\<close>

definition value_object :: "MDataValue \<Rightarrow> error + valueObject" where
  "value_object currValue =
     (case ref_reinterpret (content_ptr currValue) (content_len currValue) of
        Inl e \<Rightarrow> Inl e
      | Inr valueStr \<Rightarrow> Inr \<lparr> buf = valueStr, version = entry_version currValue \<rparr>)"

definition mdata_list_values_out ::
  "struct_sizes \<Rightarrow> memory \<Rightarrow> addr \<times> nat \<Rightarrow> error + valueObject list" where
  "mdata_list_values_out sizes m args =
     (let ptr = fst args; len = snd args in
      if len > 0 then
        (case ref_reinterpret ptr (MDataValue_size sizes * len) of
           Inl e \<Rightarrow> Inl e
         | Inr arrPtr \<Rightarrow>
             for_push
               (\<lambda>i. case array_index (values_at m) (MDataValue_size sizes) arrPtr i of
                       Inl e \<Rightarrow> Inl e
                     | Inr currValue \<Rightarrow> value_object currValue)
               len 0 [])
      else Inr [])"

text \<open>
  \<^verbatim>\<open>readValueToBuffer\<close>, the output transform of \<^verbatim>\<open>mdata_get_value\<close> and
  \<^verbatim>\<open>mdata_entries_get\<close>: a null pointer is returned as it is, anything else is copied.
\<close>

definition readValueToBuffer :: "memory \<Rightarrow> addr \<times> nat \<times> nat \<Rightarrow> error + valueObject" where
  "readValueToBuffer m argsArr =
     (let ptr = fst argsArr; len = fst (snd argsArr); ver = snd (snd argsArr) in
      if ptr = 0 then Inr \<lparr> buf = View ptr 0, version = ver \<rparr>
      else (case ref_reinterpret ptr len of
              Inl e \<Rightarrow> Inl e
            | Inr window \<Rightarrow>
                (case copy_Buffer m window of
                   Inl e \<Rightarrow> Inl e
                 | Inr b \<Rightarrow> Inr \<lparr> buf = b, version = ver \<rparr>)))"

text \<open>
  Reading a buffer after the transform has returned: a buffer of the JavaScript heap gives
  its bytes, a window reads the native memory as it is at that moment.
\<close>

fun buffer_contents :: "memory \<Rightarrow> js_buffer \<Rightarrow> error + bytes" where
  "buffer_contents m (Owned bs) = Inr bs"
| "buffer_contents m (View a n) = read_bytes m a n"

section \<open>The round trip and the shape of argument lists\<close>

text \<open>Encoding an object and decoding the struct that results.\<close>

definition decode_of_encode :: "base_types \<Rightarrow> MDataInfoObj \<Rightarrow> error + MDataInfoObj" where
  "decode_of_encode t x =
     (case makeMDataInfo t x of Inl e \<Rightarrow> Inl e | Inr w \<Rightarrow> makeMDataInfoObj t w)"

text \<open>
  A check of an argument list: each buffer is directly followed by a length, and the
  length is that of the buffer.
\<close>

fun lengths_follow :: "'p native_arg list \<Rightarrow> bool" where
  "lengths_follow [] = True"
| "lengths_follow (x # rest) =
     ((case x of
         Buf b \<Rightarrow> (case rest of Len n # rest' \<Rightarrow> n = length b | _ \<Rightarrow> False)
       | _ \<Rightarrow> True)
      \<and> lengths_follow rest)"

text \<open>The two entries that one converted item contributes.\<close>

definition buffer_and_length :: "js_data \<Rightarrow> 'p native_arg list" where
  "buffer_and_length item = [Buf (item_buffer item), Len (length (item_buffer item))]"

section \<open>Concrete data\<close>

text \<open>
  The sizes of the deployed library (a 32-byte name, a 32-byte symmetric key, a 24-byte
  nonce) and the struct sizes of a 64-bit platform.
\<close>

definition example_types :: base_types where
  "example_types = \<lparr> XOR_NAME_size = 32, SYM_KEYBYTES_size = 32, SYM_NONCEBYTES_size = 24 \<rparr>"

definition example_sizes :: struct_sizes where
  "example_sizes = \<lparr> MDataKey_size = 16, MDataValue_size = 24, MDataEntry_size = 40,
                      UserPermissionSet_size = 16 \<rparr>"

text \<open>The object of the scenario: no encryption info, every key and nonce zero.\<close>

definition public_info :: MDataInfoObj where
  "public_info =
     \<lparr> MDataInfoObj.name = replicate 32 0, typeTag = JInteger 15000,
       MDataInfoObj.has_enc_info = False,
       MDataInfoObj.enc_key = replicate 32 0, MDataInfoObj.enc_nonce = replicate 24 0,
       MDataInfoObj.has_new_enc_info = False,
       MDataInfoObj.new_enc_key = replicate 32 0, MDataInfoObj.new_enc_nonce = replicate 24 0 \<rparr>"

text \<open>An object in the middle of a key rotation: the old pair and a different new pair.\<close>

definition rotating_info :: MDataInfoObj where
  "rotating_info =
     \<lparr> MDataInfoObj.name = replicate 32 0, typeTag = JInteger 15000,
       MDataInfoObj.has_enc_info = True,
       MDataInfoObj.enc_key = replicate 32 1, MDataInfoObj.enc_nonce = replicate 24 1,
       MDataInfoObj.has_new_enc_info = True,
       MDataInfoObj.new_enc_key = replicate 32 2, MDataInfoObj.new_enc_nonce = replicate 24 2 \<rparr>"


text \<open>A struct with all-zero keys and nonces, under either value of both flags.\<close>

definition zero_key_struct :: "bool \<Rightarrow> MDataInfo" where
  "zero_key_struct flag =
     \<lparr> MDataInfo.name = replicate 32 0, type_tag = JInteger 15000,
       MDataInfo.has_enc_info = flag,
       MDataInfo.enc_key = replicate 32 0, MDataInfo.enc_nonce = replicate 24 0,
       MDataInfo.has_new_enc_info = flag,
       MDataInfo.new_enc_key = replicate 32 0, MDataInfo.new_enc_nonce = replicate 24 0 \<rparr>"

definition read_insert :: PermissionSet where
  "read_insert = \<lparr> Read = True, Insert = True, Update = False, Delete = False,
                    ManagePermissions = False \<rparr>"

text \<open>
  A memory holding: the bytes \<open>abc\<close> at 2000 and \<open>xy\<close> at 3000; an array of two keys at
  1000; an array of two values at 1100; an array of two entries at 1200, the second with an
  empty content behind a null pointer; an array of two user permission sets at 1400.
\<close>

definition example_memory :: memory where
  "example_memory =
     \<lparr> bytes_at = [2000 \<mapsto> 97, 2001 \<mapsto> 98, 2002 \<mapsto> 99, 3000 \<mapsto> 120, 3001 \<mapsto> 121],
       keys_at = [1000 \<mapsto> \<lparr> val_ptr = 2000, val_len = 3 \<rparr>,
                  1016 \<mapsto> \<lparr> val_ptr = 3000, val_len = 2 \<rparr>],
       values_at = [1100 \<mapsto> \<lparr> content_ptr = 3000, content_len = 2, entry_version = 7 \<rparr>,
                    1124 \<mapsto> \<lparr> content_ptr = 2000, content_len = 3, entry_version = 0 \<rparr>],
       entries_at =
         [1200 \<mapsto> \<lparr> MDataEntry.key = \<lparr> val_ptr = 2000, val_len = 3 \<rparr>,
                     MDataEntry.val = \<lparr> content_ptr = 3000, content_len = 2, entry_version = 7 \<rparr> \<rparr>,
          1240 \<mapsto> \<lparr> MDataEntry.key = \<lparr> val_ptr = 3000, val_len = 2 \<rparr>,
                     MDataEntry.val = \<lparr> content_ptr = 0, content_len = 0, entry_version = 4 \<rparr> \<rparr>],
       user_perms_at = [1400 \<mapsto> \<lparr> user_h = 11, perm_set = read_insert \<rparr>,
                        1416 \<mapsto> \<lparr> user_h = 12, perm_set = read_insert \<rparr>] \<rparr>"

text \<open>A memory in which nothing is mapped.\<close>

definition no_memory :: memory where
  "no_memory = \<lparr> bytes_at = Map.empty, keys_at = Map.empty, values_at = Map.empty,
                  entries_at = Map.empty, user_perms_at = Map.empty \<rparr>"

section \<open>Properties of the MutableDataInfo codec\<close>

lemma ArrayType_alloc: "ArrayType n (Buffer_alloc n) = Inr (replicate n 0)"
  by (simp add: ArrayType_def Buffer_alloc_def)

lemma ArrayType_exact: "length b = n \<Longrightarrow> ArrayType n b = Inr b"
  by (simp add: ArrayType_def)

text \<open>The encoder in closed form: it always returns a struct.\<close>

lemma makeMDataInfo_eq:
  "makeMDataInfo t x =
     Inr \<lparr> MDataInfo.name = MDataInfoObj.name x, type_tag = typeTag x,
           MDataInfo.has_enc_info = MDataInfoObj.has_enc_info x,
           MDataInfo.enc_key = (if MDataInfoObj.has_enc_info x then MDataInfoObj.enc_key x
                                else replicate (SYM_KEYBYTES_size t) 0),
           MDataInfo.enc_nonce = (if MDataInfoObj.has_enc_info x then MDataInfoObj.enc_nonce x
                                  else replicate (SYM_NONCEBYTES_size t) 0),
           MDataInfo.has_new_enc_info = MDataInfoObj.has_new_enc_info x,
           MDataInfo.new_enc_key = (if MDataInfoObj.has_new_enc_info x
                                    then MDataInfoObj.new_enc_key x
                                    else replicate (SYM_KEYBYTES_size t) 0),
           MDataInfo.new_enc_nonce = (if MDataInfoObj.has_new_enc_info x
                                      then MDataInfoObj.new_enc_nonce x
                                      else replicate (SYM_NONCEBYTES_size t) 0) \<rparr>"
  by (simp add: makeMDataInfo_def ArrayType_alloc Let_def)

text \<open>
  The decoder on a struct whose name, key and nonce have the declared sizes and whose tag
  is an integer: the new pair of the result is the old pair of the struct.
\<close>

lemma makeMDataInfoObj_eq:
  assumes "length (MDataInfo.name w) = XOR_NAME_size t"
    and "Number_isInteger (type_tag w)"
    and "length (MDataInfo.enc_key w) = SYM_KEYBYTES_size t"
    and "length (MDataInfo.enc_nonce w) = SYM_NONCEBYTES_size t"
  shows "makeMDataInfoObj t w =
     Inr \<lparr> MDataInfoObj.name = MDataInfo.name w, typeTag = type_tag w,
           MDataInfoObj.has_enc_info = MDataInfo.has_enc_info w,
           MDataInfoObj.enc_key = MDataInfo.enc_key w,
           MDataInfoObj.enc_nonce = MDataInfo.enc_nonce w,
           MDataInfoObj.has_new_enc_info = MDataInfo.has_new_enc_info w,
           MDataInfoObj.new_enc_key = MDataInfo.enc_key w,
           MDataInfoObj.new_enc_nonce = MDataInfo.enc_nonce w \<rparr>"
  using assms by (simp add: makeMDataInfoObj_def ArrayType_exact Let_def)

text \<open>The scenario of the specification does round-trip: every pair is zero.\<close>

lemma decode_of_encode_public_info:
  "decode_of_encode example_types public_info = Inr public_info"
  by (simp add: decode_of_encode_def makeMDataInfo_eq makeMDataInfoObj_eq
      example_types_def public_info_def)

text \<open>
  C1. Claimed: the decoding of the encoding of a MutableDataInfo object is the object,
  the fields \<open>new_enc_key\<close> and \<open>new_enc_nonce\<close> included, for every combination of the two
  flags. The decoder builds the new pair from the fields of the old pair, so for an object
  that carries both pairs the round trip returns the old pair twice: the result differs
  from the object, whose new key is thirty-two bytes 2.
\<close>

theorem roundtrip_loses_new_enc_info:
  "decode_of_encode example_types rotating_info =
     Inr (rotating_info \<lparr> MDataInfoObj.new_enc_key := replicate 32 1,
                          MDataInfoObj.new_enc_nonce := replicate 24 1 \<rparr>)
   \<and> decode_of_encode example_types rotating_info \<noteq> Inr rotating_info"
  by (simp add: decode_of_encode_def makeMDataInfo_eq makeMDataInfoObj_eq
      example_types_def rotating_info_def)






text \<open>
  C8. The decoder takes \<open>has_enc_info\<close> and \<open>has_new_enc_info\<close> from the flag fields of the
  struct, whatever the bytes of the keys: whenever it returns an object, the flags of the
  object are the flags of the struct.
\<close>

theorem makeMDataInfoObj_flags:
  assumes "makeMDataInfoObj t w = Inr x"
  shows "MDataInfoObj.has_enc_info x = MDataInfo.has_enc_info w
       \<and> MDataInfoObj.has_new_enc_info x = MDataInfo.has_new_enc_info w"
  using assms
  by (auto simp: makeMDataInfoObj_def Let_def split: sum.splits if_splits)

text \<open>
  The same all-zero key decodes to a false flag under a false flag and to a true flag
  under a true flag.
\<close>

lemma makeMDataInfoObj_zero_key_struct:
  "makeMDataInfoObj example_types (zero_key_struct flag) =
     Inr \<lparr> MDataInfoObj.name = replicate 32 0, typeTag = JInteger 15000,
           MDataInfoObj.has_enc_info = flag,
           MDataInfoObj.enc_key = replicate 32 0, MDataInfoObj.enc_nonce = replicate 24 0,
           MDataInfoObj.has_new_enc_info = flag,
           MDataInfoObj.new_enc_key = replicate 32 0, MDataInfoObj.new_enc_nonce = replicate 24 0 \<rparr>"
  by (simp add: makeMDataInfoObj_eq example_types_def zero_key_struct_def)

theorem makeMDataInfoObj_flags_witness:
  "(\<exists>x. makeMDataInfoObj example_types (zero_key_struct False) = Inr x
        \<and> MDataInfoObj.enc_key x = replicate 32 0
        \<and> \<not> MDataInfoObj.has_enc_info x \<and> \<not> MDataInfoObj.has_new_enc_info x)
   \<and> (\<exists>x. makeMDataInfoObj example_types (zero_key_struct True) = Inr x
        \<and> MDataInfoObj.enc_key x = replicate 32 0
        \<and> MDataInfoObj.has_enc_info x \<and> MDataInfoObj.has_new_enc_info x)"
  using makeMDataInfoObj_flags [OF makeMDataInfoObj_zero_key_struct [of False]]
        makeMDataInfoObj_flags [OF makeMDataInfoObj_zero_key_struct [of True]]
  by (simp add: makeMDataInfoObj_zero_key_struct)

section \<open>Properties of the permission-set decoder\<close>


text \<open>
  C2. Claimed: \<open>readPermissionSetPtr\<close> returns the decoded five-field permission set.
  \<open>readPermsSet\<close> does copy the five fields, but \<open>readPermissionSetPtr\<close> has no
  \<^verbatim>\<open>return\<close> statement: for a pointer to a set with \<open>Read\<close> and \<open>Insert\<close> it evaluates to
  \<^verbatim>\<open>undefined\<close>.
\<close>

theorem readPermissionSetPtr_undefined:
  "readPermissionSetPtr (Some read_insert) = Inr Undefined
   \<and> readPermissionSetPtr (Some read_insert) \<noteq> Inr (Returned read_insert)"
  by (simp add: readPermissionSetPtr_def)

section \<open>Properties of the argument transforms\<close>

lemma checked_conversion:
  "(if \<not> Buffer_isBuffer d then
      (let b = new_Buffer d in if length b \<noteq> n then Inl err else ArrayType n b)
    else (let b = bytes_of d in if length b \<noteq> n then Inl err else Inr b))
   = (if length (bytes_of d) \<noteq> n then Inl err else Inr (bytes_of d))"
  by (simp add: Let_def ArrayType_exact new_Buffer_def)

lemma translatePrivMDInput_eq:
  "translatePrivMDInput t xorname tag secKey nonce =
     (if \<not> Number_isInteger tag then Inl TYPE_TAG_NAN
      else if length (bytes_of xorname) \<noteq> XOR_NAME_size t then Inl (XOR_NAME (XOR_NAME_size t))
      else if length (bytes_of secKey) \<noteq> SYM_KEYBYTES_size t
        then Inl (INVALID_SEC_KEY (SYM_KEYBYTES_size t))
      else if length (bytes_of nonce) \<noteq> SYM_NONCEBYTES_size t
        then Inl (NONCE (SYM_NONCEBYTES_size t))
      else Inr (bytes_of xorname, tag, bytes_of secKey, bytes_of nonce))"
  unfolding translatePrivMDInput_def checked_conversion by simp

text \<open>
  C3. With a 32-byte name size, \<open>translatePrivMDInput\<close> throws exactly when the tag is not
  an integer, or the bytes of the name are not 32, or the bytes of the key are not of the
  declared key size, or the bytes of the nonce are not of the declared nonce size; every
  error it throws is one of the typed validation errors; and with an integer tag and
  buffers of the right sizes it returns the list of the name, the tag, the key and the
  nonce. The function is a computation on its arguments alone: it has thrown, or returned
  the argument list, before anything is called with that list.
\<close>

theorem translatePrivMDInput_validation:
  assumes "XOR_NAME_size t = 32"
  shows "((\<exists>e. translatePrivMDInput t xorname tag secKey nonce = Inl e)
          \<longleftrightarrow> (\<not> Number_isInteger tag
               \<or> length (bytes_of xorname) \<noteq> 32
               \<or> length (bytes_of secKey) \<noteq> SYM_KEYBYTES_size t
               \<or> length (bytes_of nonce) \<noteq> SYM_NONCEBYTES_size t))
       \<and> (\<forall>e. translatePrivMDInput t xorname tag secKey nonce = Inl e \<longrightarrow> is_validation_error e)
       \<and> (Number_isInteger tag
            \<and> length (bytes_of xorname) = 32
            \<and> length (bytes_of secKey) = SYM_KEYBYTES_size t
            \<and> length (bytes_of nonce) = SYM_NONCEBYTES_size t
          \<longrightarrow> translatePrivMDInput t xorname tag secKey nonce
                = Inr (bytes_of xorname, tag, bytes_of secKey, bytes_of nonce))"
  using assms by (simp add: translatePrivMDInput_eq)

theorem translatePrivMDInput_validation_witness:
  "XOR_NAME_size example_types = 32
   \<and> translatePrivMDInput example_types (DBuffer (replicate 32 0)) (JInteger 15000)
        (DString (replicate 32 CHR ''k'')) (DArray (replicate 24 7))
      = Inr (replicate 32 0, JInteger 15000, replicate 32 107, replicate 24 7)
   \<and> (\<exists>e. translatePrivMDInput example_types (DBuffer (replicate 31 0)) (JInteger 15000)
        (DString (replicate 32 CHR ''k'')) (DArray (replicate 24 7)) = Inl e)
   \<and> (\<exists>e. translatePrivMDInput example_types (DBuffer (replicate 33 0)) (JInteger 15000)
        (DString (replicate 32 CHR ''k'')) (DArray (replicate 24 7)) = Inl e)
   \<and> (\<exists>e. translatePrivMDInput example_types (DBuffer (replicate 32 0)) JNonInteger
        (DString (replicate 32 CHR ''k'')) (DArray (replicate 24 7)) = Inl e)"
  using translatePrivMDInput_validation [of example_types "DBuffer (replicate 32 0)" "JInteger 15000"
          "DString (replicate 32 CHR ''k'')" "DArray (replicate 24 7)"]
        translatePrivMDInput_validation [of example_types "DBuffer (replicate 31 0)" "JInteger 15000"
          "DString (replicate 32 CHR ''k'')" "DArray (replicate 24 7)"]
        translatePrivMDInput_validation [of example_types "DBuffer (replicate 33 0)" "JInteger 15000"
          "DString (replicate 32 CHR ''k'')" "DArray (replicate 24 7)"]
        translatePrivMDInput_validation [of example_types "DBuffer (replicate 32 0)" JNonInteger
          "DString (replicate 32 CHR ''k'')" "DArray (replicate 24 7)"]
  by (simp add: example_types_def)

lemma push_items_eq:
  "push_items args items = args @ concat (map buffer_and_length items)"
  by (induction items arbitrary: args) (simp_all add: buffer_and_length_def Let_def)

lemma lengths_follow_Passed: "lengths_follow (map Passed ps @ rest) = lengths_follow rest"
  by (induction ps) simp_all

lemma lengths_follow_items:
  "lengths_follow (concat (map buffer_and_length items) @ rest) = lengths_follow rest"
  by (induction items) (simp_all add: buffer_and_length_def)

lemma lengths_follow_nth:
  "lengths_follow args \<Longrightarrow> i < length args \<Longrightarrow> args ! i = Buf b
     \<Longrightarrow> Suc i < length args \<and> args ! Suc i = Len (length b)"
proof (induction args arbitrary: i)
  case Nil
  then show ?case by simp
next
  case (Cons x rest)
  show ?case
  proof (cases i)
    case 0
    with Cons.prems show ?thesis
      by (auto split: native_arg.splits list.splits)
  next
    case (Suc j)
    with Cons.prems have "lengths_follow rest" "j < length rest" "rest ! j = Buf b"
      by simp_all
    then have "Suc j < length rest \<and> rest ! Suc j = Len (length b)"
      by (rule Cons.IH)
    with Suc show ?thesis by simp
  qed
qed

text \<open>
  C9. In the argument lists built by \<open>strToBuffer\<close>, \<open>strToBufferButLastEntry\<close> and
  \<open>bufferLastEntry\<close>, every buffer is directly followed by its own byte length; the
  application pointer and the handle of the first two come first and unchanged, the last
  argument of the second comes last and unchanged, and the leading arguments of the third
  keep their order.
\<close>

theorem buffers_followed_by_lengths:
  fixes appPtr mdata lastArg :: 'p and leading :: "'p list"
  shows "strToBuffer appPtr mdata varArgs
           = [Passed appPtr, Passed mdata] @ concat (map buffer_and_length varArgs)
       \<and> strToBufferButLastEntry appPtr mdata items lastArg
           = [Passed appPtr, Passed mdata] @ concat (map buffer_and_length items) @ [Passed lastArg]
       \<and> bufferLastEntry leading lastEntry
           = map Passed leading @ [Buf (bytes_of lastEntry), Len (length (bytes_of lastEntry))]
       \<and> (\<forall>args i b.
             (args = strToBuffer appPtr mdata varArgs
              \<or> args = strToBufferButLastEntry appPtr mdata items lastArg
              \<or> args = bufferLastEntry leading lastEntry)
             \<and> i < length args \<and> args ! i = Buf b
             \<longrightarrow> Suc i < length args \<and> args ! Suc i = Len (length b))"
proof -
  have shape1: "strToBuffer appPtr mdata varArgs
           = [Passed appPtr, Passed mdata] @ concat (map buffer_and_length varArgs)"
    by (simp add: strToBuffer_def push_items_eq)
  have shape2: "strToBufferButLastEntry appPtr mdata items lastArg
           = [Passed appPtr, Passed mdata] @ concat (map buffer_and_length items) @ [Passed lastArg]"
    by (simp add: strToBufferButLastEntry_def push_items_eq)
  have shape3: "bufferLastEntry leading lastEntry
           = map Passed leading @ [Buf (bytes_of lastEntry), Len (length (bytes_of lastEntry))]"
    by (simp add: bufferLastEntry_def new_Buffer_def Let_def)
  have "lengths_follow (map Passed [appPtr, mdata] @ concat (map buffer_and_length varArgs) @ [])"
    unfolding lengths_follow_Passed lengths_follow_items by simp
  then have ok1: "lengths_follow (strToBuffer appPtr mdata varArgs)"
    by (simp add: shape1)
  have "lengths_follow (map Passed [appPtr, mdata] @ concat (map buffer_and_length items) @ [Passed lastArg])"
    unfolding lengths_follow_Passed lengths_follow_items by simp
  then have ok2: "lengths_follow (strToBufferButLastEntry appPtr mdata items lastArg)"
    by (simp add: shape2)
  have "lengths_follow (map Passed leading @ [Buf (bytes_of lastEntry), Len (length (bytes_of lastEntry))])"
    unfolding lengths_follow_Passed by simp
  then have ok3: "lengths_follow (bufferLastEntry leading lastEntry)"
    by (simp add: shape3)
  have "\<forall>args i b.
             (args = strToBuffer appPtr mdata varArgs
              \<or> args = strToBufferButLastEntry appPtr mdata items lastArg
              \<or> args = bufferLastEntry leading lastEntry)
             \<and> i < length args \<and> args ! i = Buf b
             \<longrightarrow> Suc i < length args \<and> args ! Suc i = Len (length b)"
    using ok1 ok2 ok3 lengths_follow_nth by blast
  with shape1 shape2 shape3 show ?thesis by blast
qed

theorem buffers_followed_by_lengths_witness:
  "strToBufferButLastEntry (1::nat) 2 [DString ''key'', DBuffer [7, 8]] 5
     = [Passed 1, Passed 2, Buf [107, 101, 121], Len 3, Buf [7, 8], Len 2, Passed 5]
   \<and> strToBuffer (1::nat) 2 [DString ''key'', DBuffer [7, 8]]
     = [Passed 1, Passed 2, Buf [107, 101, 121], Len 3, Buf [7, 8], Len 2]
   \<and> bufferLastEntry [1::nat, 2] (DArray [1, 2, 3]) = [Passed 1, Passed 2, Buf [1, 2, 3], Len 3]
   \<and> strToBuffer (1::nat) 2 [DString ''key'', DBuffer [7, 8]] ! 2 = Buf [107, 101, 121]
   \<and> strToBuffer (1::nat) 2 [DString ''key'', DBuffer [7, 8]] ! Suc 2 = Len 3"
  using buffers_followed_by_lengths [of "1::nat" 2 "[DString ''key'', DBuffer [7, 8]]"
          "[DString ''key'', DBuffer [7, 8]]" 5 "[1, 2]" "DArray [1, 2, 3]"]
  by (simp add: buffer_and_length_def new_Buffer_def)

section \<open>Properties of the output transforms\<close>

lemma for_push_Inr_iff:
  "for_push body len i acc = Inr xs \<longleftrightarrow>
     (\<exists>ys. xs = acc @ ys \<and> length ys = len - i
          \<and> (\<forall>j. i \<le> j \<and> j < len \<longrightarrow> body j = Inr (ys ! (j - i))))"
proof (induction body len i acc arbitrary: xs rule: for_push.induct)
  case (1 body len i acc)
  show ?case
  proof (cases "i < len")
    case False
    then show ?thesis by (simp add: for_push.simps [of body len i acc]) auto
  next
    case True
    show ?thesis
    proof (cases "body i")
      case (Inl e)
      with True show ?thesis
        by (auto simp: for_push.simps [of body len i acc])
    next
      case (Inr x)
      have step: "for_push body len i acc = for_push body len (Suc i) (acc @ [x])"
        using True Inr by (simp add: for_push.simps [of body len i acc])
      have IH: "for_push body len (Suc i) (acc @ [x]) = Inr xs \<longleftrightarrow>
         (\<exists>ys. xs = (acc @ [x]) @ ys \<and> length ys = len - Suc i
          \<and> (\<forall>j. Suc i \<le> j \<and> j < len \<longrightarrow> body j = Inr (ys ! (j - Suc i))))"
        using "1.IH" [OF True Inr] .
      show ?thesis
      proof
        assume "for_push body len i acc = Inr xs"
        then obtain ys where ys: "xs = (acc @ [x]) @ ys" "length ys = len - Suc i"
          "\<forall>j. Suc i \<le> j \<and> j < len \<longrightarrow> body j = Inr (ys ! (j - Suc i))"
          using step IH by auto
        have "\<forall>j. i \<le> j \<and> j < len \<longrightarrow> body j = Inr ((x # ys) ! (j - i))"
        proof (intro allI impI)
          fix j assume j: "i \<le> j \<and> j < len"
          show "body j = Inr ((x # ys) ! (j - i))"
          proof (cases "j = i")
            case True then show ?thesis using Inr by simp
          next
            case False
            then have "Suc i \<le> j" using j by simp
            then have "body j = Inr (ys ! (j - Suc i))" using ys(3) j by simp
            moreover have "(x # ys) ! (j - i) = ys ! (j - Suc i)"
              using \<open>Suc i \<le> j\<close> by (simp add: nth_Cons')
            ultimately show ?thesis by simp
          qed
        qed
        moreover have "length (x # ys) = len - i" using ys(2) True by simp
        moreover have "xs = acc @ (x # ys)" using ys(1) by simp
        ultimately show "\<exists>ys. xs = acc @ ys \<and> length ys = len - i
          \<and> (\<forall>j. i \<le> j \<and> j < len \<longrightarrow> body j = Inr (ys ! (j - i)))" by blast
      next
        assume "\<exists>ys. xs = acc @ ys \<and> length ys = len - i
          \<and> (\<forall>j. i \<le> j \<and> j < len \<longrightarrow> body j = Inr (ys ! (j - i)))"
        then obtain ys where ys: "xs = acc @ ys" "length ys = len - i"
          "\<forall>j. i \<le> j \<and> j < len \<longrightarrow> body j = Inr (ys ! (j - i))" by blast
        from ys(2) True obtain y zs where yz: "ys = y # zs" by (cases ys) auto
        have "body i = Inr (ys ! (i - i))" using ys(3) True by blast
        then have "body i = Inr y" using yz by simp
        then have "y = x" using Inr by simp
        have "\<forall>j. Suc i \<le> j \<and> j < len \<longrightarrow> body j = Inr (zs ! (j - Suc i))"
        proof (intro allI impI)
          fix j assume j: "Suc i \<le> j \<and> j < len"
          then have "body j = Inr ((y # zs) ! (j - i))" using ys(3) yz by simp
          moreover have "(y # zs) ! (j - i) = zs ! (j - Suc i)" using j by (simp add: nth_Cons')
          ultimately show "body j = Inr (zs ! (j - Suc i))" by simp
        qed
        moreover have "length zs = len - Suc i" using ys(2) yz by simp
        moreover have "xs = (acc @ [x]) @ zs" using ys(1) yz \<open>y = x\<close> by simp
        ultimately have "\<exists>ys. xs = (acc @ [x]) @ ys \<and> length ys = len - Suc i
          \<and> (\<forall>j. Suc i \<le> j \<and> j < len \<longrightarrow> body j = Inr (ys ! (j - Suc i)))"
          by (intro exI [of _ zs] conjI)
        then have "for_push body len (Suc i) (acc @ [x]) = Inr xs"
          by (simp only: IH)
        then show "for_push body len i acc = Inr xs"
          by (simp only: step)
      qed
    qed
  qed
qed

lemma for_push_from_zero:
  "for_push body len 0 [] = Inr xs \<longleftrightarrow>
     length xs = len \<and> (\<forall>j<len. body j = Inr (xs ! j))"
  by (auto simp: for_push_Inr_iff)

lemma array_index_in_range:
  "i < len \<Longrightarrow> array_index heap sz (View ptr (sz * len)) i =
     (case heap (ptr + i * sz) of None \<Rightarrow> Inl Segfault | Some s \<Rightarrow> Inr s)"
proof -
  assume "i < len"
  then have "Suc i \<le> len" by simp
  then have "Suc i * sz \<le> len * sz" by (rule mult_le_mono1)
  then show ?thesis by (simp add: array_index_def mult.commute)
qed

lemma record_step:
  "i < len \<Longrightarrow>
   (case array_index heap sz (View ptr (sz * len)) i of Inl e \<Rightarrow> Inl e | Inr r \<Rightarrow> obj r) = Inr x
   \<longleftrightarrow> (\<exists>r. heap (ptr + i * sz) = Some r \<and> obj r = Inr x)"
  by (simp add: array_index_in_range split: option.splits)

lemma loop_over_records:
  "for_push (\<lambda>i. case array_index heap sz (View ptr (sz * len)) i of
                    Inl e \<Rightarrow> Inl e | Inr r \<Rightarrow> obj r) len 0 [] = Inr xs
   \<longleftrightarrow> length xs = len
       \<and> (\<forall>i<len. \<exists>r. heap (ptr + i * sz) = Some r \<and> obj r = Inr (xs ! i))"
  unfolding for_push_from_zero
  using record_step [where len = len and heap = heap and sz = sz and ptr = ptr and obj = obj]
  by blast

lemma mdata_list_keys_out_iff:
  "0 < len \<Longrightarrow>
   mdata_list_keys_out sizes m (ptr, len) = Inr xs \<longleftrightarrow>
     ptr \<noteq> 0 \<and> length xs = len
     \<and> (\<forall>i<len. \<exists>k. keys_at m (ptr + i * MDataKey_size sizes) = Some k \<and> key_object k = Inr (xs ! i))"
  by (simp add: mdata_list_keys_out_def ref_reinterpret_def loop_over_records)

lemma mdata_list_values_out_iff:
  "0 < len \<Longrightarrow>
   mdata_list_values_out sizes m (ptr, len) = Inr xs \<longleftrightarrow>
     ptr \<noteq> 0 \<and> length xs = len
     \<and> (\<forall>i<len. \<exists>v. values_at m (ptr + i * MDataValue_size sizes) = Some v \<and> value_object v = Inr (xs ! i))"
  by (simp add: mdata_list_values_out_def ref_reinterpret_def loop_over_records)

lemma mdata_list_entries_out_iff:
  "0 < len \<Longrightarrow>
   mdata_list_entries_out sizes m (ptr, len) = Inr xs \<longleftrightarrow>
     ptr \<noteq> 0 \<and> length xs = len
     \<and> (\<forall>i<len. \<exists>e. entries_at m (ptr + i * MDataEntry_size sizes) = Some e \<and> entry_object m e = Inr (xs ! i))"
  by (simp add: mdata_list_entries_out_def ref_reinterpret_def loop_over_records)




text \<open>The four transforms on the example memory.\<close>

lemma all_less_two: "(\<forall>i<2::nat. P i) \<longleftrightarrow> P 0 \<and> P 1"
  by (auto simp: numeral_2_eq_2 less_Suc_eq)

lemma example_keys:
  "mdata_list_keys_out example_sizes example_memory (1000, 2) = Inr [View 2000 3, View 3000 2]"
  by (simp add: mdata_list_keys_out_iff all_less_two example_sizes_def example_memory_def
      key_object_def ref_reinterpret_def)

lemma example_values:
  "mdata_list_values_out example_sizes example_memory (1100, 2)
     = Inr [\<lparr> buf = View 3000 2, version = 7 \<rparr>, \<lparr> buf = View 2000 3, version = 0 \<rparr>]"
  by (simp add: mdata_list_values_out_iff all_less_two example_sizes_def example_memory_def
      value_object_def ref_reinterpret_def)

lemma read_bytes_example:
  "read_bytes example_memory 3000 2 = Inr [120, 121]"
  "read_bytes example_memory 2000 3 = Inr [97, 98, 99]"
  by (simp_all add: read_bytes_def example_memory_def upt_rec)

lemma example_entries:
  "mdata_list_entries_out example_sizes example_memory (1200, 2)
     = Inr [\<lparr> entryObject.key = View 2000 3,
               entryObject.val = \<lparr> buf = Owned [120, 121], version = 7 \<rparr> \<rparr>,
             \<lparr> entryObject.key = View 3000 2,
               entryObject.val = \<lparr> buf = Owned [], version = 4 \<rparr> \<rparr>]"
proof -
  let ?E0 = "\<lparr> MDataEntry.key = \<lparr> val_ptr = 2000, val_len = 3 \<rparr>,
               MDataEntry.val = \<lparr> content_ptr = 3000, content_len = 2, entry_version = 7 \<rparr> \<rparr>"
  let ?E1 = "\<lparr> MDataEntry.key = \<lparr> val_ptr = 3000, val_len = 2 \<rparr>,
               MDataEntry.val = \<lparr> content_ptr = 0, content_len = 0, entry_version = 4 \<rparr> \<rparr>"
  have e0: "entries_at example_memory 1200 = Some ?E0"
    by (simp add: example_memory_def)
  have e1: "entries_at example_memory 1240 = Some ?E1"
    by (simp add: example_memory_def)
  have o0: "entry_object example_memory ?E0
      = Inr \<lparr> entryObject.key = View 2000 3,
              entryObject.val = \<lparr> buf = Owned [120, 121], version = 7 \<rparr> \<rparr>"
    by (simp add: entry_object_def ref_reinterpret_def read_bytes_example)
  have o1: "entry_object example_memory ?E1
      = Inr \<lparr> entryObject.key = View 3000 2,
              entryObject.val = \<lparr> buf = Owned [], version = 4 \<rparr> \<rparr>"
    by (simp add: entry_object_def ref_reinterpret_def)
  show ?thesis
    by (simp add: mdata_list_entries_out_iff all_less_two example_sizes_def e0 e1 o0 o1)
qed



text \<open>
  C7. Claimed: the key bytes and the content bytes of every decoded entry, key and value
  are copied into memory of the caller during the decode, so that no decoded object keeps
  a reference into native memory. Only the content of an entry is copied. The keys of
  \<open>mdata_list_keys\<close>, the contents of \<open>mdata_list_values\<close> and the keys of
  \<open>mdata_list_entries\<close> are the windows returned by \<^verbatim>\<open>ref.reinterpret\<close>: read after the
  native memory is gone, such a key has no bytes, while a copied content still has its own.
\<close>

theorem decoded_payloads_are_windows:
  "mdata_list_keys_out example_sizes example_memory (1000, 2) = Inr [View 2000 3, View 3000 2]
   \<and> mdata_list_values_out example_sizes example_memory (1100, 2)
       = Inr [\<lparr> buf = View 3000 2, version = 7 \<rparr>, \<lparr> buf = View 2000 3, version = 0 \<rparr>]
   \<and> mdata_list_entries_out example_sizes example_memory (1200, 2)
       = Inr [\<lparr> entryObject.key = View 2000 3,
                 entryObject.val = \<lparr> buf = Owned [120, 121], version = 7 \<rparr> \<rparr>,
               \<lparr> entryObject.key = View 3000 2,
                 entryObject.val = \<lparr> buf = Owned [], version = 4 \<rparr> \<rparr>]
   \<and> buffer_contents example_memory (View 2000 3) = Inr [97, 98, 99]
   \<and> buffer_contents no_memory (View 2000 3) = Inl Segfault
   \<and> buffer_contents no_memory (Owned [120, 121]) = Inr [120, 121]"
  by (simp add: example_keys example_values example_entries read_bytes_example)
     (simp add: read_bytes_def no_memory_def upt_rec)

text \<open>The transform of \<^verbatim>\<open>mdata_get_value\<close> does copy the content it is given.\<close>

lemma readValueToBuffer_copies:
  "readValueToBuffer example_memory (2000, 3, 7) = Inr \<lparr> buf = Owned [97, 98, 99], version = 7 \<rparr>"
  by (simp add: readValueToBuffer_def ref_reinterpret_def read_bytes_example)

text \<open>
  C10. For an entry whose content length is 0, the object built by the transform of
  \<open>mdata_list_entries\<close> has the fresh empty buffer as its value and the entry version as
  its version, and the content pointer is not used: the result is the same for every
  content pointer (the null pointer included) and every memory. The same holds of the
  element of the list that the transform returns for such an entry.
\<close>

theorem empty_content_not_dereferenced:
  assumes "content_len (MDataEntry.val e) = 0"
  shows "entry_object m e =
           (case ref_reinterpret (val_ptr (MDataEntry.key e)) (val_len (MDataEntry.key e)) of
              Inl err \<Rightarrow> Inl err
            | Inr keyStr \<Rightarrow>
                Inr \<lparr> entryObject.key = keyStr,
                      entryObject.val = \<lparr> buf = Owned [],
                                          version = entry_version (MDataEntry.val e) \<rparr> \<rparr>)
       \<and> (\<forall>m' p. entry_object m'
                     (e \<lparr> MDataEntry.val := (MDataEntry.val e) \<lparr> content_ptr := p \<rparr> \<rparr>)
                   = entry_object m e)
       \<and> (\<forall>sizes ptr len es i.
             mdata_list_entries_out sizes m (ptr, len) = Inr es \<and> i < len
             \<and> entries_at m (ptr + i * MDataEntry_size sizes) = Some e
             \<longrightarrow> entryObject.val (es ! i)
                   = \<lparr> buf = Owned [], version = entry_version (MDataEntry.val e) \<rparr>)"
proof -
  have one: "entry_object m e =
           (case ref_reinterpret (val_ptr (MDataEntry.key e)) (val_len (MDataEntry.key e)) of
              Inl err \<Rightarrow> Inl err
            | Inr keyStr \<Rightarrow>
                Inr \<lparr> entryObject.key = keyStr,
                      entryObject.val = \<lparr> buf = Owned [],
                                          version = entry_version (MDataEntry.val e) \<rparr> \<rparr>)"
    for m
    using assms by (simp add: entry_object_def split: sum.splits)
  have two: "entry_object m' (e \<lparr> MDataEntry.val := (MDataEntry.val e) \<lparr> content_ptr := p \<rparr> \<rparr>)
                   = entry_object m e" for m' p
    using assms by (simp add: entry_object_def split: sum.splits)
  have three: "entryObject.val (es ! i)
                   = \<lparr> buf = Owned [], version = entry_version (MDataEntry.val e) \<rparr>"
    if out: "mdata_list_entries_out sizes m (ptr, len) = Inr es" and i: "i < len"
      and at: "entries_at m (ptr + i * MDataEntry_size sizes) = Some e"
    for sizes ptr len es i
  proof -
    from i have "0 < len" by simp
    with out have "\<forall>i<len. \<exists>e. entries_at m (ptr + i * MDataEntry_size sizes) = Some e
                          \<and> entry_object m e = Inr (es ! i)"
      by (simp add: mdata_list_entries_out_iff)
    with i at have eq: "entry_object m e = Inr (es ! i)" by auto
    show ?thesis
    proof (cases "ref_reinterpret (val_ptr (MDataEntry.key e)) (val_len (MDataEntry.key e))")
      case (Inl err)
      with eq show ?thesis by (simp add: one)
    next
      case (Inr keyStr)
      with eq have "es ! i =
        \<lparr> entryObject.key = keyStr,
          entryObject.val = \<lparr> buf = Owned [], version = entry_version (MDataEntry.val e) \<rparr> \<rparr>"
        by (simp add: one)
      then show ?thesis by simp
    qed
  qed
  from one two three show ?thesis by blast
qed

theorem empty_content_not_dereferenced_witness:
  "content_len (MDataEntry.val
      \<lparr> MDataEntry.key = \<lparr> val_ptr = 3000, val_len = 2 \<rparr>,
        MDataEntry.val = \<lparr> content_ptr = 0, content_len = 0, entry_version = 4 \<rparr> \<rparr>) = 0
   \<and> entry_object no_memory
      \<lparr> MDataEntry.key = \<lparr> val_ptr = 3000, val_len = 2 \<rparr>,
        MDataEntry.val = \<lparr> content_ptr = 0, content_len = 0, entry_version = 4 \<rparr> \<rparr>
     = Inr \<lparr> entryObject.key = View 3000 2,
             entryObject.val = \<lparr> buf = Owned [], version = 4 \<rparr> \<rparr>
   \<and> entry_object no_memory
      \<lparr> MDataEntry.key = \<lparr> val_ptr = 3000, val_len = 2 \<rparr>,
        MDataEntry.val = \<lparr> content_ptr = 5000, content_len = 0, entry_version = 4 \<rparr> \<rparr>
     = Inr \<lparr> entryObject.key = View 3000 2,
             entryObject.val = \<lparr> buf = Owned [], version = 4 \<rparr> \<rparr>"
proof -
  let ?E = "\<lparr> MDataEntry.key = \<lparr> val_ptr = 3000, val_len = 2 \<rparr>,
        MDataEntry.val = \<lparr> content_ptr = 0, content_len = 0, entry_version = 4 \<rparr> \<rparr>"
  have h: "content_len (MDataEntry.val ?E) = 0" by simp
  note t = empty_content_not_dereferenced [OF h, of no_memory]
  from t have a: "entry_object no_memory ?E
     = Inr \<lparr> entryObject.key = View 3000 2,
             entryObject.val = \<lparr> buf = Owned [], version = 4 \<rparr> \<rparr>"
    by (simp add: ref_reinterpret_def)
  from t have "entry_object no_memory
      (?E \<lparr> MDataEntry.val := (MDataEntry.val ?E) \<lparr> content_ptr := 5000 \<rparr> \<rparr>)
     = entry_object no_memory ?E"
    by blast
  with a have b: "entry_object no_memory
      \<lparr> MDataEntry.key = \<lparr> val_ptr = 3000, val_len = 2 \<rparr>,
        MDataEntry.val = \<lparr> content_ptr = 5000, content_len = 0, entry_version = 4 \<rparr> \<rparr>
     = Inr \<lparr> entryObject.key = View 3000 2,
             entryObject.val = \<lparr> buf = Owned [], version = 4 \<rparr> \<rparr>"
    by simp
  from h a b show ?thesis by blast
qed

end
